theory Spec2Isabelle
  imports Main
begin

section \<open>Observables as traces\<close>

text \<open>
  The services are written as RxJS pipelines. An observable is modelled by the trace
  one subscriber sees: the values in the order they arrive, and then how the stream ends.
  It completes, it throws, or it stays open for ever (a stream that stalls).
  Where an operator subscribes to inner streams (\<open>flatMap\<close>, \<open>switchMap\<close>), the trace of
  an inner stream is delivered entirely before the next outer value arrives.
\<close>

datatype ending = Completes | Throws string | StaysOpen

datatype 'a observable = Observable (emitted: "'a list") (ending: ending)

definition of_obs :: "'a \<Rightarrow> 'a observable" where
  "of_obs x = Observable [x] Completes"

definition map_obs :: "('a \<Rightarrow> 'b) \<Rightarrow> 'a observable \<Rightarrow> 'b observable" where
  "map_obs f src = Observable (map f (emitted src)) (ending src)"

definition filter_obs :: "('a \<Rightarrow> bool) \<Rightarrow> 'a observable \<Rightarrow> 'a observable" where
  "filter_obs p src = Observable (filter p (emitted src)) (ending src)"

text \<open>\<open>distinctUntilChanged()\<close> on primitive values (strings): \<open>===\<close> is equality of values.\<close>

definition distinctUntilChanged :: "'a observable \<Rightarrow> 'a observable" where
  "distinctUntilChanged src = Observable (remdups_adj (emitted src)) (ending src)"

text \<open>
  \<open>distinctUntilChanged()\<close> on objects compares references. Every object that reaches it
  in these pipelines was allocated by \<open>new\<close> for that very emission, so no two neighbours are
  the same reference and nothing is dropped.
\<close>

definition distinctUntilChangedRef :: "'a observable \<Rightarrow> 'a observable" where
  "distinctUntilChangedRef src = src"

text \<open>\<open>take(1)\<close>: the first value, then completion; without a value the source's ending.\<close>

definition take1 :: "'a observable \<Rightarrow> 'a observable" where
  "take1 src = (case emitted src of [] \<Rightarrow> Observable [] (ending src) | x # _ \<Rightarrow> Observable [x] Completes)"


text \<open>The ending of a merge of an inner stream with the rest of the merge.\<close>

fun merge_ending :: "ending \<Rightarrow> ending \<Rightarrow> ending" where
  "merge_ending (Throws err) _ = Throws err"
| "merge_ending _ (Throws err) = Throws err"
| "merge_ending StaysOpen _ = StaysOpen"
| "merge_ending _ StaysOpen = StaysOpen"
| "merge_ending Completes Completes = Completes"

text \<open>
  \<open>tap(eff), flatMap(f)\<close>: every outer value first runs the side effect \<open>eff\<close> on the
  state and is then replaced by its inner stream. A throwing inner stream ends the whole
  pipeline: later outer values are neither tapped nor mapped.
\<close>

fun tapFlatMap :: "('a \<Rightarrow> 's \<Rightarrow> 's) \<Rightarrow> ('a \<Rightarrow> 'b observable) \<Rightarrow> 'a list \<Rightarrow> ending \<Rightarrow> 's
    \<Rightarrow> 'b observable \<times> 's" where
  "tapFlatMap eff f [] e s = (Observable [] e, s)"
| "tapFlatMap eff f (x # xs) e s =
     (let s1 = eff x s; inner = f x in
      case ending inner of
        Throws err \<Rightarrow> (Observable (emitted inner) (Throws err), s1)
      | _ \<Rightarrow>
        (case tapFlatMap eff f xs e s1 of
           (rest, s2) \<Rightarrow>
             (Observable (emitted inner @ emitted rest) (merge_ending (ending inner) (ending rest)), s2)))"

section \<open>Shared helpers and value types\<close>

text \<open>
  Modelled from the spec: \<open>isNotEmpty\<close> of \<open>shared/empty.util\<close> is not among the sources.
  The spec has the pipelines wait for a "non-empty" endpoint and append the scope
  "if scopeId is given"; a missing value (\<open>undefined\<close>, \<open>null\<close>) is \<open>None\<close>. Strings and
  arrays are both lists here.
\<close>

definition isNotEmpty :: "'a list option \<Rightarrow> bool" where
  "isNotEmpty obj = (case obj of None \<Rightarrow> False | Some xs \<Rightarrow> xs \<noteq> [])"

text \<open>
  Modelled from the spec: the \<open>RemoteData\<close> envelope of \<open>core/data/remote-data\<close> is not
  among the sources. The spec gives it a state out of request-pending, response-pending,
  success and failure, a payload (present only in success), a status code and an error
  message.
\<close>

datatype request_state = RequestPending | ResponsePending | Success | Failure

datatype 'p RemoteData =
  RemoteData (state: request_state) (payload: "'p option") (statusCode: "int option")
    (errorMessage: "string option")

definition hasFailed :: "'p RemoteData \<Rightarrow> bool" where
  "hasFailed rd = (state rd = Failure)"

definition rdHasSucceeded :: "'p RemoteData \<Rightarrow> bool" where
  "rdHasSucceeded rd = (state rd = Success)"

definition hasCompleted :: "'p RemoteData \<Rightarrow> bool" where
  "hasCompleted rd = (hasFailed rd \<or> rdHasSucceeded rd)"

text \<open>
  Modelled from the spec: the operators of \<open>core/shared/operators\<close> are not among the
  sources. \<open>getFirstCompletedRemoteData\<close> awaits "the gateway's resolved response", the
  first envelope that is a success or a failure.
\<close>

definition getFirstCompletedRemoteData :: "'p RemoteData observable \<Rightarrow> 'p RemoteData observable" where
  "getFirstCompletedRemoteData src = take1 (filter_obs hasCompleted src)"

text \<open>\<open>ProcessTaskResponse(isSuccess, statusCode?, errorMessage?)\<close>, the spec's TaskOutcome.\<close>

datatype ProcessTaskResponse =
  ProcessTaskResponse (hasSucceeded: bool) (taskStatusCode: "int option")
    (taskErrorMessage: "string option")

section \<open>The request service\<close>

text \<open>
  A request descriptor: the request identifier, the target href, the body and the HTTP
  options. \<open>TaskDeleteRequest\<close> is built with a \<open>null\<close> body.
\<close>

datatype ('b, 'h) RestRequest =
    TaskPostRequest (requestUuid: nat) (requestHref: string) (requestBody: "'b option")
      (requestOptions: "'h option")
  | TaskDeleteRequest (requestUuid: nat) (requestHref: string) (requestBody: "'b option")
      (requestOptions: "'h option")
  | VocabularyEntriesRequest (requestUuid: nat) (requestHref: string)

text \<open>
  Modelled from the spec: \<open>RequestService\<close> is not among the sources. It hands out
  "a freshly generated unique request identifier" (a counter here) and accepts request
  descriptors; \<open>configured\<close> is the log of the descriptors handed to it.
\<close>

record ('b, 'h) RequestService =
  issuedIds :: nat
  configured :: "('b, 'h) RestRequest list"

definition generateRequestId :: "('b, 'h) RequestService \<Rightarrow> nat \<times> ('b, 'h) RequestService" where
  "generateRequestId rs = (issuedIds rs, rs\<lparr>issuedIds := Suc (issuedIds rs)\<rparr>)"

definition configure :: "('b, 'h) RestRequest \<Rightarrow> ('b, 'h) RequestService \<Rightarrow> ('b, 'h) RequestService" where
  "configure request rs = rs\<lparr>configured := configured rs @ [request]\<rparr>"

section \<open>TasksService\<close>

text \<open>
  \<open>halService.getEndpoint\<close> and \<open>rdbService.buildFromRequestUUID\<close> are external
  collaborators: the stream of URLs a link name resolves to, and the stream of envelopes
  the gateway reports for a request identifier. They are parameters of the model.
\<close>

definition fetchRequest :: "(nat \<Rightarrow> 'p RemoteData observable) \<Rightarrow> nat \<Rightarrow> ProcessTaskResponse observable" where
  "fetchRequest buildFromRequestUUID requestId =
     map_obs (\<lambda>response.
        if hasFailed response
        then ProcessTaskResponse False (statusCode response) (errorMessage response)
        else ProcessTaskResponse True (statusCode response) None)
       (getFirstCompletedRemoteData (buildFromRequestUUID requestId))"

definition getEndpointByIDHref :: "string \<Rightarrow> string option \<Rightarrow> string" where
  "getEndpointByIDHref endpoint resourceID =
     (if isNotEmpty resourceID then endpoint @ ''/'' @ the resourceID else endpoint)"

definition postToEndpoint ::
  "(string \<Rightarrow> string observable) \<Rightarrow> (nat \<Rightarrow> 'p RemoteData observable) \<Rightarrow>
   string \<Rightarrow> 'b \<Rightarrow> string option \<Rightarrow> 'h option \<Rightarrow> ('b, 'h) RequestService \<Rightarrow>
   ProcessTaskResponse observable \<times> ('b, 'h) RequestService" where
  "postToEndpoint getEndpoint buildFromRequestUUID linkPath body scopeId options rs =
     (case generateRequestId rs of
        (requestId, rs1) \<Rightarrow>
          (let requests =
                 map_obs (\<lambda>endpointURL. TaskPostRequest requestId endpointURL (Some body) options)
                   (distinctUntilChanged
                     (map_obs (\<lambda>endpointURL. getEndpointByIDHref endpointURL scopeId)
                       (filter_obs (\<lambda>href. isNotEmpty (Some href)) (getEndpoint linkPath))))
           in case tapFlatMap configure (\<lambda>request. fetchRequest buildFromRequestUUID requestId)
                     (emitted requests) (ending requests) rs1 of
                (responses, rs2) \<Rightarrow> (distinctUntilChangedRef responses, rs2)))"

text \<open>\<open>linkPath || this.linkPath\<close>: a missing or empty link name falls back to the service's own.\<close>

definition linkPathOr :: "string option \<Rightarrow> string \<Rightarrow> string" where
  "linkPathOr linkPath thisLinkPath =
     (case linkPath of None \<Rightarrow> thisLinkPath | Some l \<Rightarrow> if l = [] then thisLinkPath else l)"

definition getEndpointById ::
  "(string \<Rightarrow> string observable) \<Rightarrow> string \<Rightarrow> string option \<Rightarrow> string option \<Rightarrow> string observable" where
  "getEndpointById getEndpoint thisLinkPath scopeId linkPath =
     map_obs (\<lambda>endpointURL. getEndpointByIDHref endpointURL scopeId)
       (distinctUntilChanged
         (filter_obs (\<lambda>href. isNotEmpty (Some href))
           (getEndpoint (linkPathOr linkPath thisLinkPath))))"

definition deleteById ::
  "(string \<Rightarrow> string observable) \<Rightarrow> (nat \<Rightarrow> 'p RemoteData observable) \<Rightarrow> string \<Rightarrow>
   string \<Rightarrow> string option \<Rightarrow> 'h option \<Rightarrow> ('b, 'h) RequestService \<Rightarrow>
   ProcessTaskResponse observable \<times> ('b, 'h) RequestService" where
  "deleteById getEndpoint buildFromRequestUUID thisLinkPath linkPath scopeId options rs =
     (case generateRequestId rs of
        (requestId, rs1) \<Rightarrow>
          (let requests =
                 map_obs (\<lambda>endpointURL. TaskDeleteRequest requestId endpointURL None options)
                   (getEndpointById getEndpoint thisLinkPath scopeId (Some linkPath))
           in case tapFlatMap configure (\<lambda>request. fetchRequest buildFromRequestUUID requestId)
                     (emitted requests) (ending requests) rs1 of
                (responses, rs2) \<Rightarrow> (distinctUntilChangedRef responses, rs2)))"


text \<open>
  \<open>switchMap(f)\<close>: every outer value replaces the running inner stream by a new one, so
  only the last inner stream decides with the source how the result ends.
\<close>

fun switchMap :: "('a \<Rightarrow> 'b observable) \<Rightarrow> 'a list \<Rightarrow> ending \<Rightarrow> 'b observable" where
  "switchMap f [] e = Observable [] e"
| "switchMap f (x # xs) e =
     (let inner = f x in
      case ending inner of
        Throws err \<Rightarrow> Observable (emitted inner) (Throws err)
      | _ \<Rightarrow>
        (if xs = [] then Observable (emitted inner) (merge_ending (ending inner) e)
         else (case switchMap f xs e of
                 rest \<Rightarrow> Observable (emitted inner @ emitted rest) (ending rest))))"


section \<open>VocabularyService\<close>

text \<open>\<open>map(f)\<close> with a projection that can throw: the stream ends with the first exception.\<close>

fun mapThrowing :: "('a \<Rightarrow> string + 'b) \<Rightarrow> 'a list \<Rightarrow> ending \<Rightarrow> 'b observable" where
  "mapThrowing f [] e = Observable [] e"
| "mapThrowing f (x # xs) e =
     (case f x of
        Inl err \<Rightarrow> Observable [] (Throws err)
      | Inr y \<Rightarrow> (case mapThrowing f xs e of rest \<Rightarrow> Observable (y # emitted rest) (ending rest)))"

definition flatMap :: "('a \<Rightarrow> 'b observable) \<Rightarrow> 'a observable \<Rightarrow> 'b observable" where
  "flatMap f src = fst (tapFlatMap (\<lambda>x s. s) f (emitted src) (ending src) ())"

text \<open>
  Modelled from the spec: the models \<open>Vocabulary\<close>, \<open>VocabularyEntry\<close>, \<open>PaginatedList\<close>,
  \<open>PageInfo\<close>, \<open>VocabularyOptions\<close> and \<open>VocabularyFindOptions\<close> are not among the sources.
  A vocabulary carries its name and its entries link (\<open>_links.entries.href\<close>); an entry a
  display value, a value and an authority key; a paged list its page info and its items.
  \<open>new PageInfo()\<close> sets no field. \<open>VocabularyFindOptions\<close> is built from six positional
  arguments: an unused first one, the value, the exact flag, the entry ID, the page size
  and the page index.
\<close>

datatype Vocabulary = Vocabulary (vocabularyName: string) (entriesHref: string)

datatype VocabularyEntry =
  VocabularyEntry (display: string) (entryValue: string) (authority: "string option")

record PageInfo =
  elementsPerPage :: "int option"
  totalElements :: "int option"
  currentPage :: "int option"

definition newPageInfo :: PageInfo where
  "newPageInfo = \<lparr>elementsPerPage = None, totalElements = None, currentPage = None\<rparr>"

datatype 'e PaginatedList = PaginatedList (listPageInfo: PageInfo) (page: "'e list")

record VocabularyOptions =
  name :: string

datatype VocabularyFindOptions =
  VocabularyFindOptions (findFirst: "string option") (findValue: "string option")
    (findExact: "bool option") (findEntryID: "string option")
    (findElementsPerPage: "int option") (findCurrentPage: "int option")

text \<open>
  Modelled from the spec: \<open>getFirstSucceededRemoteDataPayload\<close> and
  \<open>getFirstSucceededRemoteListPayload\<close> of \<open>core/shared/operators\<close> are not among the
  sources. The first takes "its first successful payload", the second "the first successful
  list". Reading the page of a payload that is missing throws a TypeError.
\<close>

definition getFirstSucceededRemoteDataPayload :: "'p RemoteData observable \<Rightarrow> 'p option observable" where
  "getFirstSucceededRemoteDataPayload src = map_obs payload (take1 (filter_obs rdHasSucceeded src))"

definition getFirstSucceededRemoteListPayload ::
  "'e PaginatedList RemoteData observable \<Rightarrow> 'e list observable" where
  "getFirstSucceededRemoteListPayload src =
     (case getFirstSucceededRemoteDataPayload src of
        payloads \<Rightarrow>
          mapThrowing (\<lambda>p. case p of None \<Rightarrow> Inl ''TypeError'' | Some l \<Rightarrow> Inr (page l))
            (emitted payloads) (ending payloads))"

text \<open>
  \<open>map(href => new VocabularyEntriesRequest(requestService.generateRequestId(), href))\<close>
  followed by \<open>configureRequest(requestService)\<close>, as one subscriber runs them: every href
  draws a fresh identifier and its request is handed to the request service.
\<close>

fun requestsFor :: "string list \<Rightarrow> ('b, 'h) RequestService \<Rightarrow>
    ('b, 'h) RestRequest list \<times> ('b, 'h) RequestService" where
  "requestsFor [] rs = ([], rs)"
| "requestsFor (href # hrefs) rs =
     (case generateRequestId rs of
        (requestId, rs1) \<Rightarrow>
          (case requestsFor hrefs (configure (VocabularyEntriesRequest requestId href) rs1) of
             (requests, rs2) \<Rightarrow> (VocabularyEntriesRequest requestId href # requests, rs2)))"

definition configuredRequests :: "string observable \<Rightarrow> ('b, 'h) RequestService \<Rightarrow>
    ('b, 'h) RestRequest observable \<times> ('b, 'h) RequestService" where
  "configuredRequests hrefs rs =
     (case requestsFor (emitted hrefs) rs of
        (requests, rs1) \<Rightarrow> (Observable requests (ending hrefs), rs1))"

text \<open>
  \<open>toRDPaginatedVocabularyEntries\<close> derives \<open>requestEntry$\<close> from its source, derives
  \<open>payload$\<close> from \<open>requestEntry$\<close> and hands both to \<open>rdb.toRemoteDataObservable\<close>. The
  pipelines are cold, so the source runs once for each of the two: identifiers are drawn
  and requests configured twice.

  Modelled from the spec: \<open>getRequestFromRequestHref\<close>, \<open>filterSuccessfulResponses\<close> and
  \<open>rdb.toRemoteDataObservable\<close> are not among the sources. The gateway "exposes the
  eventual response as an observable remote data wrapper"; \<open>gatewayEntries href\<close> stands
  for the stream of envelopes that \<open>rdb.toRemoteDataObservable\<close> builds from the request
  entries and the payloads of the list request on \<open>href\<close>, whichever states it lets
  through. Re-wrapping an item as a \<open>VocabularyEntry\<close> keeps its fields.
\<close>

definition toRDPaginatedVocabularyEntries ::
  "(string \<Rightarrow> 'e PaginatedList RemoteData observable) \<Rightarrow>
   (('b, 'h) RequestService \<Rightarrow> ('b, 'h) RestRequest observable \<times> ('b, 'h) RequestService) \<Rightarrow>
   ('b, 'h) RequestService \<Rightarrow> 'e PaginatedList RemoteData observable \<times> ('b, 'h) RequestService" where
  "toRDPaginatedVocabularyEntries gatewayEntries source rs =
     (case source rs of
        (requestEntrySide, rs1) \<Rightarrow>
          (case source rs1 of
             (payloadSide, rs2) \<Rightarrow>
               (flatMap (\<lambda>request. gatewayEntries (requestHref request)) requestEntrySide, rs2)))"

definition getVocabularyEntriesFor ::
  "(string \<Rightarrow> 'e PaginatedList RemoteData observable) \<Rightarrow> string observable \<Rightarrow>
   ('b, 'h) RequestService \<Rightarrow> 'e PaginatedList RemoteData observable \<times> ('b, 'h) RequestService" where
  "getVocabularyEntriesFor gatewayEntries hrefs rs =
     toRDPaginatedVocabularyEntries gatewayEntries (configuredRequests hrefs) rs"

text \<open>
  \<open>findVocabularyById\<close> and \<open>buildHrefFromFindOptions\<close> are inherited from \<open>DataService\<close>
  and are parameters. Reading \<open>_links\<close> of a payload that is missing throws a TypeError.
\<close>

definition entriesHrefFor :: "(string \<Rightarrow> VocabularyFindOptions \<Rightarrow> string) \<Rightarrow> VocabularyFindOptions \<Rightarrow>
    Vocabulary option \<Rightarrow> string + string" where
  "entriesHrefFor buildHrefFromFindOptions options v =
     (case v of
        None \<Rightarrow> Inl ''TypeError''
      | Some vocabulary \<Rightarrow> Inr (buildHrefFromFindOptions (entriesHref vocabulary) options))"

definition getVocabularyEntriesByValue ::
  "(string \<Rightarrow> Vocabulary RemoteData observable) \<Rightarrow> (string \<Rightarrow> VocabularyFindOptions \<Rightarrow> string) \<Rightarrow>
   (string \<Rightarrow> 'e PaginatedList RemoteData observable) \<Rightarrow>
   string \<Rightarrow> bool \<Rightarrow> VocabularyOptions \<Rightarrow> PageInfo \<Rightarrow> ('b, 'h) RequestService \<Rightarrow>
   'e PaginatedList RemoteData observable \<times> ('b, 'h) RequestService" where
  "getVocabularyEntriesByValue findVocabularyById buildHrefFromFindOptions gatewayEntries
       val exact vocabularyOptions pageInfo rs =
     (let options = VocabularyFindOptions None (Some val) (Some exact) None
                      (elementsPerPage pageInfo) (currentPage pageInfo);
          vocabularies = getFirstSucceededRemoteDataPayload (findVocabularyById (name vocabularyOptions));
          hrefs = mapThrowing (entriesHrefFor buildHrefFromFindOptions options)
                    (emitted vocabularies) (ending vocabularies)
      in getVocabularyEntriesFor gatewayEntries
           (distinctUntilChanged (filter_obs (\<lambda>href. isNotEmpty (Some href)) hrefs)) rs)"

definition firstOrNull :: "'e list \<Rightarrow> 'e option" where
  "firstOrNull list = (if isNotEmpty (Some list) then Some (hd list) else None)"

definition getVocabularyEntryByValue ::
  "(string \<Rightarrow> Vocabulary RemoteData observable) \<Rightarrow> (string \<Rightarrow> VocabularyFindOptions \<Rightarrow> string) \<Rightarrow>
   (string \<Rightarrow> 'e PaginatedList RemoteData observable) \<Rightarrow>
   string \<Rightarrow> VocabularyOptions \<Rightarrow> ('b, 'h) RequestService \<Rightarrow>
   'e option observable \<times> ('b, 'h) RequestService" where
  "getVocabularyEntryByValue findVocabularyById buildHrefFromFindOptions gatewayEntries
       val vocabularyOptions rs =
     (case getVocabularyEntriesByValue findVocabularyById buildHrefFromFindOptions gatewayEntries
             val True vocabularyOptions newPageInfo rs of
        (entries, rs1) \<Rightarrow> (map_obs firstOrNull (getFirstSucceededRemoteListPayload entries), rs1))"

definition getVocabularyEntryByID ::
  "(string \<Rightarrow> Vocabulary RemoteData observable) \<Rightarrow> (string \<Rightarrow> VocabularyFindOptions \<Rightarrow> string) \<Rightarrow>
   (string \<Rightarrow> 'e PaginatedList RemoteData observable) \<Rightarrow>
   string \<Rightarrow> VocabularyOptions \<Rightarrow> ('b, 'h) RequestService \<Rightarrow>
   'e option observable \<times> ('b, 'h) RequestService" where
  "getVocabularyEntryByID findVocabularyById buildHrefFromFindOptions gatewayEntries
       ID vocabularyOptions rs =
     (let pageInfo = newPageInfo;
          options = VocabularyFindOptions None None None (Some ID)
                      (elementsPerPage pageInfo) (currentPage pageInfo);
          vocabularies = getFirstSucceededRemoteDataPayload (findVocabularyById (name vocabularyOptions));
          hrefs = mapThrowing (entriesHrefFor buildHrefFromFindOptions options)
                    (emitted vocabularies) (ending vocabularies)
      in case getVocabularyEntriesFor gatewayEntries
                (distinctUntilChanged (filter_obs (\<lambda>href. isNotEmpty (Some href)) hrefs)) rs of
           (entries, rs1) \<Rightarrow> (map_obs firstOrNull (getFirstSucceededRemoteListPayload entries), rs1))"

section \<open>MyDSpaceReloadableActionsComponent\<close>

text \<open>
  The component's observable state: the last value pushed to \<open>processing$\<close>, the
  notifications handed to the notifications service, the events emitted on
  \<open>processCompleted\<close> and the number of calls of the generic \<open>reload()\<close>.
  \<open>NotificationOptions(timeOut, clickToClose)\<close> are kept with each notification.
\<close>

datatype notificationType = SuccessType | ErrorType

datatype Notification =
  Notification (notificationType: notificationType) (messageKey: string) (timeOut: nat)
    (clickToClose: bool)

text \<open>The search-result wrapper that \<open>convertReloadedObject\<close> builds around a reloaded object.\<close>

datatype 'o SearchResult = SearchResult (indexableObject: 'o)

record 'o ActionsComponent =
  processing :: bool
  notifications :: "Notification list"
  processCompleted :: "(bool \<times> 'o SearchResult) list"
  reloads :: nat

definition handleReloadableActionResponse ::
  "bool \<Rightarrow> 'o SearchResult option \<Rightarrow> 'o ActionsComponent \<Rightarrow> 'o ActionsComponent" where
  "handleReloadableActionResponse result reloadedObject c =
     (if result then
        (let c1 = (case reloadedObject of
                     Some obj \<Rightarrow> c\<lparr>processCompleted := processCompleted c @ [(result, obj)]\<rparr>
                   | None \<Rightarrow> c\<lparr>reloads := Suc (reloads c)\<rparr>)
         in c1\<lparr>notifications := notifications c1 @
                 [Notification SuccessType ''submission.workflow.tasks.generic.success'' 5000 False]\<rparr>)
      else c\<lparr>notifications := notifications c @
                 [Notification ErrorType ''submission.workflow.tasks.generic.error'' 20000 True]\<rparr>)"

text \<open>
  \<open>(dso as any).constructor\<close> throws a TypeError when \<open>dso\<close> is \<open>null\<close> or \<open>undefined\<close>.

  Modelled from the spec: \<open>getSearchResultFor\<close> is not among the sources; it supplies
  "whatever search-result wrapper the caller's type requires".
\<close>

definition convertReloadedObject :: "'o option \<Rightarrow> string + 'o SearchResult" where
  "convertReloadedObject dso =
     (case dso of None \<Rightarrow> Inl ''TypeError'' | Some obj \<Rightarrow> Inr (SearchResult obj))"

text \<open>
  What \<open>reloadObjectExecution\<close> emits: a \<open>RemoteData\<close> envelope or the object itself
  (\<open>None\<close> is \<open>null\<close>).
\<close>

datatype 'o Reloaded = Envelope "'o RemoteData" | Plain "'o option"

definition reloadObject :: "'o Reloaded observable \<Rightarrow> 'o SearchResult observable" where
  "reloadObject reloadObjectExecution =
     (case switchMap
             (\<lambda>res. case res of
                      Envelope rd \<Rightarrow> getFirstSucceededRemoteDataPayload (of_obs rd)
                    | Plain dso \<Rightarrow> of_obs dso)
             (emitted reloadObjectExecution) (ending reloadObjectExecution) of
        unwrapped \<Rightarrow> mapThrowing convertReloadedObject (emitted unwrapped) (ending unwrapped))"

text \<open>\<open>tap(eff)\<close>: the side effect runs once for every emitted value, in order.\<close>

definition tap :: "('a \<Rightarrow> 's \<Rightarrow> 's) \<Rightarrow> 'a observable \<Rightarrow> 's \<Rightarrow> 's" where
  "tap eff src s = fold eff (emitted src) s"

text \<open>\<open>switchMap(f)\<close> with a projection and inner streams that change the component.\<close>

fun switchMapSt :: "('a \<Rightarrow> 's \<Rightarrow> 'b observable \<times> 's) \<Rightarrow> 'a list \<Rightarrow> ending \<Rightarrow> 's
    \<Rightarrow> 'b observable \<times> 's" where
  "switchMapSt f [] e s = (Observable [] e, s)"
| "switchMapSt f (x # xs) e s =
     (case f x s of
        (inner, s1) \<Rightarrow>
          (case ending inner of
             Throws err \<Rightarrow> (Observable (emitted inner) (Throws err), s1)
           | _ \<Rightarrow>
             (if xs = [] then (Observable (emitted inner) (merge_ending (ending inner) e), s1)
              else (case switchMapSt f xs e s1 of
                      (rest, s2) \<Rightarrow> (Observable (emitted inner @ emitted rest) (ending rest), s2)))))"

text \<open>The projection that \<open>startActionExecution\<close> gives to \<open>switchMap\<close>.\<close>

definition onActionResponse ::
  "'o Reloaded observable \<Rightarrow> ProcessTaskResponse \<Rightarrow> 'o ActionsComponent \<Rightarrow>
   'o SearchResult option observable \<times> 'o ActionsComponent" where
  "onActionResponse reloadObjectExecution res c =
     (if hasSucceeded res then
        (let reloaded = reloadObject reloadObjectExecution in
         (map_obs Some reloaded,
          tap (\<lambda>reloadedObject c'.
                 handleReloadableActionResponse (hasSucceeded res) (Some reloadedObject)
                   (c'\<lparr>processing := False\<rparr>))
            reloaded c))
      else (of_obs None, handleReloadableActionResponse (hasSucceeded res) None (c\<lparr>processing := False\<rparr>)))"

definition startActionExecution ::
  "ProcessTaskResponse observable \<Rightarrow> 'o Reloaded observable \<Rightarrow> 'o ActionsComponent \<Rightarrow>
   'o SearchResult option observable \<times> 'o ActionsComponent" where
  "startActionExecution actionExecution reloadObjectExecution c =
     switchMapSt (onActionResponse reloadObjectExecution)
       (emitted actionExecution) (ending actionExecution) (c\<lparr>processing := True\<rparr>)"

section \<open>Example collaborators\<close>

text \<open>
  Concrete collaborators on which the properties below are exercised: a resolver that knows
  every vocabulary after one pending envelope, an href builder that appends the filter, a
  gateway that holds one entry under the ID \<open>42\<close>, a gateway that answers every list
  request with a failure, and a resolver whose fetch of the vocabulary fails.
\<close>

definition exampleVocabularies :: "string \<Rightarrow> Vocabulary RemoteData observable" where
  "exampleVocabularies vname =
     Observable [RemoteData ResponsePending None None None,
                 RemoteData Success (Some (Vocabulary vname (''https://api/vocabularies/'' @ vname @ ''/entries'')))
                   (Some 200) None] StaysOpen"

definition exampleBuildHref :: "string \<Rightarrow> VocabularyFindOptions \<Rightarrow> string" where
  "exampleBuildHref href options =
     (case findEntryID options of
        Some i \<Rightarrow> href @ ''?entryID='' @ i
      | None \<Rightarrow> (case findValue options of Some v \<Rightarrow> href @ ''?filter='' @ v | None \<Rightarrow> href))"

definition exampleEntries :: "string \<Rightarrow> VocabularyEntry PaginatedList RemoteData observable" where
  "exampleEntries href =
     Observable [RemoteData ResponsePending None None None,
                 RemoteData Success
                   (Some (PaginatedList newPageInfo
                      (if href = ''https://api/vocabularies/srsc/entries?entryID=42''
                       then [VocabularyEntry ''Forty-two'' ''42'' (Some ''srsc:42'')] else [])))
                   (Some 200) None] StaysOpen"



definition noRequests :: "(unit, unit) RequestService" where
  "noRequests = \<lparr>issuedIds = 0, configured = []\<rparr>"

definition idle :: "nat ActionsComponent" where
  "idle = \<lparr>processing = False, notifications = [], processCompleted = [], reloads = 0\<rparr>"

section \<open>Properties of the task pipeline\<close>

lemma take1_filter_first:
  "list_all (\<lambda>r. \<not> p r) pending \<Longrightarrow> p x \<Longrightarrow>
   take1 (filter_obs p (Observable (pending @ x # later) e)) = Observable [x] Completes"
  by (induction pending) (simp_all add: take1_def filter_obs_def)


lemma fetchRequest_first_completed:
  assumes "buildFromRequestUUID requestId = Observable (pending @ response # later) e"
    and "list_all (\<lambda>r. \<not> hasCompleted r) pending" and "hasCompleted response"
  shows "fetchRequest buildFromRequestUUID requestId =
     Observable [if hasFailed response
        then ProcessTaskResponse False (statusCode response) (errorMessage response)
        else ProcessTaskResponse True (statusCode response) None] Completes"
  using assms take1_filter_first [of hasCompleted pending response later e]
  by (simp add: fetchRequest_def getFirstCompletedRemoteData_def map_obs_def)

lemma tapFlatMap_single:
  "tapFlatMap eff f [x] e s =
     (Observable (emitted (f x)) (merge_ending (ending (f x)) e), eff x s)"
  by (cases "ending (f x)"; cases e) (simp_all add: Let_def)

lemma postToEndpoint_single:
  assumes "getEndpoint linkPath = Observable [U] e" and "U \<noteq> []"
  shows "postToEndpoint getEndpoint rdb linkPath body scopeId options rs =
     (Observable (emitted (fetchRequest rdb (issuedIds rs)))
        (merge_ending (ending (fetchRequest rdb (issuedIds rs))) e),
      rs\<lparr>issuedIds := Suc (issuedIds rs),
         configured := configured rs @
           [TaskPostRequest (issuedIds rs) (getEndpointByIDHref U scopeId) (Some body) options]\<rparr>)"
  using assms
  by (simp add: postToEndpoint_def generateRequestId_def map_obs_def filter_obs_def
      distinctUntilChanged_def distinctUntilChangedRef_def isNotEmpty_def configure_def
      tapFlatMap_single del: tapFlatMap.simps)

lemma getEndpointById_single:
  assumes "getEndpoint (linkPathOr linkPath thisLinkPath) = Observable [U] e" and "U \<noteq> []"
  shows "getEndpointById getEndpoint thisLinkPath scopeId linkPath =
     Observable [getEndpointByIDHref U scopeId] e"
  using assms
  by (simp add: getEndpointById_def map_obs_def filter_obs_def distinctUntilChanged_def
      isNotEmpty_def)

lemma deleteById_single:
  assumes "getEndpoint (linkPathOr (Some linkPath) thisLinkPath) = Observable [U] e" and "U \<noteq> []"
  shows "deleteById getEndpoint rdb thisLinkPath linkPath scopeId options rs =
     (Observable (emitted (fetchRequest rdb (issuedIds rs)))
        (merge_ending (ending (fetchRequest rdb (issuedIds rs))) e),
      rs\<lparr>issuedIds := Suc (issuedIds rs),
         configured := configured rs @
           [TaskDeleteRequest (issuedIds rs) (getEndpointByIDHref U scopeId) None options]\<rparr>)"
proof -
  have "getEndpointById getEndpoint thisLinkPath scopeId (Some linkPath) =
      Observable [getEndpointByIDHref U scopeId] e"
    using assms by (rule getEndpointById_single)
  then show ?thesis
    by (simp add: deleteById_def generateRequestId_def map_obs_def configure_def
      distinctUntilChangedRef_def tapFlatMap_single del: tapFlatMap.simps)
qed

lemma filter_all_empty:
  "set hrefs \<subseteq> {[]} \<Longrightarrow> filter (\<lambda>href. isNotEmpty (Some href)) hrefs = []"
  by (induction hrefs) (simp_all add: isNotEmpty_def)

lemma postToEndpoint_stall:
  assumes "set (emitted (getEndpoint linkPath)) \<subseteq> {[]}"
  shows "postToEndpoint getEndpoint rdb linkPath body scopeId options rs =
     (Observable [] (ending (getEndpoint linkPath)), rs\<lparr>issuedIds := Suc (issuedIds rs)\<rparr>)"
  using filter_all_empty [OF assms]
  by (simp add: postToEndpoint_def generateRequestId_def map_obs_def filter_obs_def
      distinctUntilChanged_def distinctUntilChangedRef_def)

lemma getEndpointById_stall:
  assumes "set (emitted (getEndpoint (linkPathOr linkPath thisLinkPath))) \<subseteq> {[]}"
  shows "getEndpointById getEndpoint thisLinkPath scopeId linkPath =
     Observable [] (ending (getEndpoint (linkPathOr linkPath thisLinkPath)))"
  using filter_all_empty [OF assms]
  by (simp add: getEndpointById_def map_obs_def filter_obs_def distinctUntilChanged_def)

lemma deleteById_stall:
  assumes "set (emitted (getEndpoint (linkPathOr (Some linkPath) thisLinkPath))) \<subseteq> {[]}"
  shows "deleteById getEndpoint rdb thisLinkPath linkPath scopeId options rs =
     (Observable [] (ending (getEndpoint (linkPathOr (Some linkPath) thisLinkPath))),
      rs\<lparr>issuedIds := Suc (issuedIds rs)\<rparr>)"
proof -
  have "getEndpointById getEndpoint thisLinkPath scopeId (Some linkPath) =
     Observable [] (ending (getEndpoint (linkPathOr (Some linkPath) thisLinkPath)))"
    using assms by (rule getEndpointById_stall)
  then show ?thesis
    by (simp add: deleteById_def generateRequestId_def map_obs_def distinctUntilChangedRef_def)
qed

text \<open>
  C10. When the resource identifier is missing or the empty string,
  \<open>getEndpointByIDHref\<close> returns the endpoint unchanged, with no slash appended. So
  \<open>deleteById\<close> with such a scope, once the link resolves to a non-empty URL \<open>U\<close>, hands the
  request service one DELETE request on \<open>U\<close> itself, and answers with what \<open>fetchRequest\<close>
  yields for that request: it throws only if the endpoint stream or the gateway does.
\<close>

theorem getEndpointByIDHref_without_id:
  assumes "resourceID = None \<or> resourceID = Some []"
    and "getEndpoint (linkPathOr (Some linkPath) thisLinkPath) = Observable [U] e"
    and "U \<noteq> []"
  shows "getEndpointByIDHref E resourceID = E
    \<and> configured (snd (deleteById getEndpoint rdb thisLinkPath linkPath resourceID options rs)) =
        configured rs @ [TaskDeleteRequest (issuedIds rs) U None options]
    \<and> fst (deleteById getEndpoint rdb thisLinkPath linkPath resourceID options rs) =
        Observable (emitted (fetchRequest rdb (issuedIds rs)))
          (merge_ending (ending (fetchRequest rdb (issuedIds rs))) e)"
proof -
  have bare: "getEndpointByIDHref E' resourceID = E'" for E'
    using assms(1) by (auto simp add: getEndpointByIDHref_def isNotEmpty_def)
  have "deleteById getEndpoint rdb thisLinkPath linkPath resourceID options rs =
     (Observable (emitted (fetchRequest rdb (issuedIds rs)))
        (merge_ending (ending (fetchRequest rdb (issuedIds rs))) e),
      rs\<lparr>issuedIds := Suc (issuedIds rs),
         configured := configured rs @
           [TaskDeleteRequest (issuedIds rs) (getEndpointByIDHref U resourceID) None options]\<rparr>)"
    using assms(2,3) by (rule deleteById_single)
  then show ?thesis
    by (simp add: bare)
qed

theorem getEndpointByIDHref_without_id_witness:
  "getEndpointByIDHref ''https://api/claimtask'' (Some '''') = ''https://api/claimtask''
   \<and> configured (snd (deleteById (\<lambda>l. Observable [''https://api/claimtask''] StaysOpen)
         (\<lambda>i. Observable [RemoteData Success (None :: unit option) (Some 204) None] StaysOpen)
         ''tasks'' ''claimtask'' (Some '''') (None :: unit option)
         \<lparr>issuedIds = 7, configured = ([] :: (unit, unit) RestRequest list)\<rparr>)) =
       [TaskDeleteRequest 7 ''https://api/claimtask'' None None]"
  using getEndpointByIDHref_without_id [of "Some ''''" "\<lambda>l. Observable [''https://api/claimtask''] StaysOpen"
      "''claimtask''" "''tasks''" "''https://api/claimtask''" StaysOpen "''https://api/claimtask''"
      "\<lambda>i. Observable [RemoteData Success (None :: unit option) (Some 204) None] StaysOpen"
      "None :: unit option" "\<lparr>issuedIds = 7, configured = ([] :: (unit, unit) RestRequest list)\<rparr>"]
  by simp

text \<open>
  C7. \<open>postToEndpoint(linkPath, body, scopeId)\<close> with a given, non-empty \<open>scopeId\<close>, the
  link resolving to the non-empty URL \<open>U\<close>: the one request handed to the request service is
  a POST on \<open>U/scopeId\<close>, and when the first completed answer of the gateway is a success
  with status 200 the outcome is \<open>ProcessTaskResponse(true, 200)\<close>.
\<close>

theorem postToEndpoint_scoped:
  assumes "getEndpoint linkPath = Observable [U] e" and "U \<noteq> []" and "scopeId \<noteq> []"
    and "buildFromRequestUUID (issuedIds rs) = Observable (pending @ response # later) e'"
    and "list_all (\<lambda>r. \<not> hasCompleted r) pending"
    and "state response = Success" and "statusCode response = Some 200"
  shows "configured (snd (postToEndpoint getEndpoint buildFromRequestUUID linkPath body
            (Some scopeId) options rs)) =
          configured rs @ [TaskPostRequest (issuedIds rs) (U @ ''/'' @ scopeId) (Some body) options]
    \<and> emitted (fst (postToEndpoint getEndpoint buildFromRequestUUID linkPath body
            (Some scopeId) options rs)) =
          [ProcessTaskResponse True (Some 200) None]"
proof -
  have completed: "hasCompleted response"
    using assms(6) by (simp add: hasCompleted_def rdHasSucceeded_def)
  have "fetchRequest buildFromRequestUUID (issuedIds rs) =
     Observable [if hasFailed response
        then ProcessTaskResponse False (statusCode response) (errorMessage response)
        else ProcessTaskResponse True (statusCode response) None] Completes"
    using assms(4,5) completed by (rule fetchRequest_first_completed)
  then have outcome: "fetchRequest buildFromRequestUUID (issuedIds rs) =
      Observable [ProcessTaskResponse True (Some 200) None] Completes"
    using assms(6,7) by (simp add: hasFailed_def)
  have "postToEndpoint getEndpoint buildFromRequestUUID linkPath body (Some scopeId) options rs =
     (Observable (emitted (fetchRequest buildFromRequestUUID (issuedIds rs)))
        (merge_ending (ending (fetchRequest buildFromRequestUUID (issuedIds rs))) e),
      rs\<lparr>issuedIds := Suc (issuedIds rs),
         configured := configured rs @
           [TaskPostRequest (issuedIds rs) (getEndpointByIDHref U (Some scopeId)) (Some body) options]\<rparr>)"
    using assms(1,2) by (rule postToEndpoint_single)
  then show ?thesis
    using assms(3) by (simp add: outcome getEndpointByIDHref_def isNotEmpty_def)
qed

theorem postToEndpoint_scoped_witness:
  "configured (snd (postToEndpoint (\<lambda>l. Observable [''https://api/claimtask''] StaysOpen)
        (\<lambda>i. Observable [RemoteData ResponsePending None None None,
                          RemoteData Success (Some ()) (Some 200) None] StaysOpen)
        ''claimtask'' () (Some ''123'') (None :: unit option)
        \<lparr>issuedIds = 0, configured = []\<rparr>)) =
     [TaskPostRequest 0 ''https://api/claimtask/123'' (Some ()) None]
   \<and> emitted (fst (postToEndpoint (\<lambda>l. Observable [''https://api/claimtask''] StaysOpen)
        (\<lambda>i. Observable [RemoteData ResponsePending None None None,
                          RemoteData Success (Some ()) (Some 200) None] StaysOpen)
        ''claimtask'' () (Some ''123'') (None :: unit option)
        \<lparr>issuedIds = 0, configured = []\<rparr>)) =
     [ProcessTaskResponse True (Some 200) None]"
proof -
  let ?getEndpoint = "\<lambda>l :: string. Observable [''https://api/claimtask''] StaysOpen"
  let ?rdb = "\<lambda>i :: nat. Observable [RemoteData ResponsePending None None None,
                          RemoteData Success (Some ()) (Some 200) None] StaysOpen"
  let ?rs = "\<lparr>issuedIds = 0, configured = ([] :: (unit, unit) RestRequest list)\<rparr>"
  have h1: "?getEndpoint ''claimtask'' = Observable [''https://api/claimtask''] StaysOpen"
    by simp
  have h4: "?rdb (issuedIds ?rs) =
      Observable ([RemoteData ResponsePending None None None]
        @ RemoteData Success (Some ()) (Some 200) None # []) StaysOpen"
    by simp
  have h5: "list_all (\<lambda>r. \<not> hasCompleted r) [RemoteData ResponsePending (None :: unit option) None None]"
    by (simp add: hasCompleted_def hasFailed_def rdHasSucceeded_def)
  show ?thesis
    using postToEndpoint_scoped [of ?getEndpoint "''claimtask''" "''https://api/claimtask''"
        StaysOpen "''123''" ?rdb ?rs "[RemoteData ResponsePending None None None]"
        "RemoteData Success (Some ()) (Some 200) None" "[]" StaysOpen "()" "None :: unit option",
        OF h1 _ _ h4 h5]
    by simp
qed

text \<open>
  C2. The outcome of a task submission is the reduction of the first completed answer the
  gateway reports for the request: a success gives \<open>hasSucceeded\<close> true, the gateway's
  status code and no error message; a failure gives \<open>hasSucceeded\<close> false, the gateway's
  status code and the gateway's error message unchanged. \<open>postToEndpoint\<close> and
  \<open>deleteById\<close> emit this outcome once the link has resolved to a non-empty URL.
\<close>

theorem fetchRequest_reduces_response:
  assumes "buildFromRequestUUID (issuedIds rs) = Observable (pending @ response # later) e"
    and "list_all (\<lambda>r. \<not> hasCompleted r) pending"
    and "hasCompleted response"
    and "getEndpoint linkPath = Observable [U] e1" and "U \<noteq> []"
    and "getEndpoint (linkPathOr (Some linkPath') thisLinkPath) = Observable [U'] e2" and "U' \<noteq> []"
  shows "(state response = Success \<longrightarrow>
            emitted (fetchRequest buildFromRequestUUID (issuedIds rs)) =
              [ProcessTaskResponse True (statusCode response) None])
    \<and> (state response = Failure \<longrightarrow>
            emitted (fetchRequest buildFromRequestUUID (issuedIds rs)) =
              [ProcessTaskResponse False (statusCode response) (errorMessage response)])
    \<and> emitted (fst (postToEndpoint getEndpoint buildFromRequestUUID linkPath body scopeId options rs)) =
          emitted (fetchRequest buildFromRequestUUID (issuedIds rs))
    \<and> emitted (fst (deleteById getEndpoint buildFromRequestUUID thisLinkPath linkPath' scopeId' options' rs)) =
          emitted (fetchRequest buildFromRequestUUID (issuedIds rs))"
proof -
  have post: "postToEndpoint getEndpoint buildFromRequestUUID linkPath body scopeId options rs =
     (Observable (emitted (fetchRequest buildFromRequestUUID (issuedIds rs)))
        (merge_ending (ending (fetchRequest buildFromRequestUUID (issuedIds rs))) e1),
      rs\<lparr>issuedIds := Suc (issuedIds rs),
         configured := configured rs @
           [TaskPostRequest (issuedIds rs) (getEndpointByIDHref U scopeId) (Some body) options]\<rparr>)"
    using assms(4,5) by (rule postToEndpoint_single)
  have del: "deleteById getEndpoint buildFromRequestUUID thisLinkPath linkPath' scopeId' options' rs =
     (Observable (emitted (fetchRequest buildFromRequestUUID (issuedIds rs)))
        (merge_ending (ending (fetchRequest buildFromRequestUUID (issuedIds rs))) e2),
      rs\<lparr>issuedIds := Suc (issuedIds rs),
         configured := configured rs @
           [TaskDeleteRequest (issuedIds rs) (getEndpointByIDHref U' scopeId') None options']\<rparr>)"
    using assms(6,7) by (rule deleteById_single)
  have "fetchRequest buildFromRequestUUID (issuedIds rs) =
     Observable [if hasFailed response
        then ProcessTaskResponse False (statusCode response) (errorMessage response)
        else ProcessTaskResponse True (statusCode response) None] Completes"
    using assms(1,2,3) by (rule fetchRequest_first_completed)
  then show ?thesis
    by (simp add: post del hasFailed_def)
qed

theorem fetchRequest_reduces_response_witness:
  "emitted (fetchRequest (\<lambda>i. Observable [RemoteData RequestPending None None None,
        RemoteData Failure (None :: unit option) (Some 422) (Some ''Unprocessable'')] StaysOpen) 3) =
     [ProcessTaskResponse False (Some 422) (Some ''Unprocessable'')]
   \<and> emitted (fst (postToEndpoint (\<lambda>l. Observable [''https://api/claimtask''] StaysOpen)
        (\<lambda>i. Observable [RemoteData RequestPending None None None,
           RemoteData Failure (None :: unit option) (Some 422) (Some ''Unprocessable'')] StaysOpen)
        ''claimtask'' () (Some ''123'') (None :: unit option)
        \<lparr>issuedIds = 3, configured = []\<rparr>)) =
     [ProcessTaskResponse False (Some 422) (Some ''Unprocessable'')]"
proof -
  let ?getEndpoint = "\<lambda>l :: string. Observable [''https://api/claimtask''] StaysOpen"
  let ?rdb = "\<lambda>i :: nat. Observable [RemoteData RequestPending None None None,
        RemoteData Failure (None :: unit option) (Some 422) (Some ''Unprocessable'')] StaysOpen"
  let ?rs = "\<lparr>issuedIds = 3, configured = ([] :: (unit, unit) RestRequest list)\<rparr>"
  have h1: "?rdb (issuedIds ?rs) =
      Observable ([RemoteData RequestPending None None None]
        @ RemoteData Failure None (Some 422) (Some ''Unprocessable'') # []) StaysOpen"
    by simp
  have h2: "list_all (\<lambda>r. \<not> hasCompleted r) [RemoteData RequestPending (None :: unit option) None None]"
    by (simp add: hasCompleted_def hasFailed_def rdHasSucceeded_def)
  have h3: "hasCompleted (RemoteData Failure (None :: unit option) (Some 422) (Some ''Unprocessable''))"
    by (simp add: hasCompleted_def hasFailed_def)
  have h4: "?getEndpoint ''claimtask'' = Observable [''https://api/claimtask''] StaysOpen"
    by simp
  have h6: "?getEndpoint (linkPathOr (Some ''claimtask'') ''tasks'') =
      Observable [''https://api/claimtask''] StaysOpen"
    by simp
  show ?thesis
    using fetchRequest_reduces_response [of ?rdb ?rs "[RemoteData RequestPending None None None]"
        "RemoteData Failure None (Some 422) (Some ''Unprocessable'')" "[]" StaysOpen
        ?getEndpoint "''claimtask''" "''https://api/claimtask''" StaysOpen "''claimtask''" "''tasks''"
        "''https://api/claimtask''" StaysOpen "()" "Some ''123''" "None :: unit option",
        OF h1 h2 h3 h4 _ h6]
    by simp
qed

text \<open>
  C4. As long as every value the endpoint resolver has delivered is the empty string, the
  task pipelines have emitted nothing and have handed no request to the request service:
  \<open>postToEndpoint\<close>, \<open>getEndpointById\<close> and \<open>deleteById\<close> emit only after a non-empty
  endpoint has arrived.
\<close>

theorem empty_endpoint_stalls:
  assumes "set (emitted (getEndpoint linkPath)) \<subseteq> {[]}"
    and "set (emitted (getEndpoint (linkPathOr (Some linkPath') thisLinkPath))) \<subseteq> {[]}"
  shows "emitted (fst (postToEndpoint getEndpoint rdb linkPath body scopeId options rs)) = []
    \<and> configured (snd (postToEndpoint getEndpoint rdb linkPath body scopeId options rs)) = configured rs
    \<and> emitted (getEndpointById getEndpoint thisLinkPath scopeId (Some linkPath')) = []
    \<and> emitted (fst (deleteById getEndpoint rdb thisLinkPath linkPath' scopeId options rs)) = []
    \<and> configured (snd (deleteById getEndpoint rdb thisLinkPath linkPath' scopeId options rs)) = configured rs"
proof -
  have post: "postToEndpoint getEndpoint rdb linkPath body scopeId options rs =
     (Observable [] (ending (getEndpoint linkPath)), rs\<lparr>issuedIds := Suc (issuedIds rs)\<rparr>)"
    using assms(1) by (rule postToEndpoint_stall)
  have byId: "getEndpointById getEndpoint thisLinkPath scopeId (Some linkPath') =
     Observable [] (ending (getEndpoint (linkPathOr (Some linkPath') thisLinkPath)))"
    using assms(2) by (rule getEndpointById_stall)
  have del: "deleteById getEndpoint rdb thisLinkPath linkPath' scopeId options rs =
     (Observable [] (ending (getEndpoint (linkPathOr (Some linkPath') thisLinkPath))),
      rs\<lparr>issuedIds := Suc (issuedIds rs)\<rparr>)"
    using assms(2) by (rule deleteById_stall)
  show ?thesis
    by (simp add: post byId del)
qed

theorem empty_endpoint_stalls_witness:
  "emitted (fst (postToEndpoint (\<lambda>l. Observable ['''', ''''] StaysOpen)
        (\<lambda>i. Observable [RemoteData Success (Some ()) (Some 200) None] Completes)
        ''claimtask'' () (Some ''123'') (None :: unit option)
        \<lparr>issuedIds = 0, configured = []\<rparr>)) = []
   \<and> configured (snd (deleteById (\<lambda>l. Observable ['''', ''''] StaysOpen)
        (\<lambda>i. Observable [RemoteData Success (Some ()) (Some 200) None] Completes)
        ''tasks'' ''claimtask'' (Some ''123'') (None :: unit option)
        \<lparr>issuedIds = 0, configured = ([] :: (unit, unit) RestRequest list)\<rparr>)) = []"
proof -
  let ?getEndpoint = "\<lambda>l :: string. Observable ['''', ''''] StaysOpen"
  have h1: "set (emitted (?getEndpoint ''claimtask'')) \<subseteq> {[]}"
    by simp
  have h2: "set (emitted (?getEndpoint (linkPathOr (Some ''claimtask'') ''tasks''))) \<subseteq> {[]}"
    by simp
  show ?thesis
    using empty_endpoint_stalls [of ?getEndpoint "''claimtask''" "''claimtask''" "''tasks''"
        "\<lambda>i. Observable [RemoteData Success (Some ()) (Some 200) None] Completes"
        "()" "Some ''123''" "None :: unit option"
        "\<lparr>issuedIds = 0, configured = ([] :: (unit, unit) RestRequest list)\<rparr>", OF h1 h2]
    by simp
qed

section \<open>Properties of the vocabulary pipeline\<close>

lemma getFirstSucceededRemoteDataPayload_first:
  assumes "list_all (\<lambda>r. \<not> rdHasSucceeded r) pending" and "rdHasSucceeded rd"
  shows "getFirstSucceededRemoteDataPayload (Observable (pending @ rd # later) e) =
     Observable [payload rd] Completes"
  using take1_filter_first [OF assms, of later e]
  by (simp add: getFirstSucceededRemoteDataPayload_def map_obs_def)


lemma getFirstSucceededRemoteListPayload_first:
  assumes "list_all (\<lambda>r. \<not> rdHasSucceeded r) pending" and "rdHasSucceeded rd"
    and "payload rd = Some l"
  shows "getFirstSucceededRemoteListPayload (Observable (pending @ rd # later) e) =
     Observable [page l] Completes"
  using getFirstSucceededRemoteDataPayload_first [OF assms(1,2), of later e] assms(3)
  by (simp add: getFirstSucceededRemoteListPayload_def)


lemma requestsFor_log:
  "configured (snd (requestsFor hrefs rs)) = configured rs @ fst (requestsFor hrefs rs)
   \<and> map requestHref (fst (requestsFor hrefs rs)) = hrefs"
proof (induction hrefs arbitrary: rs)
  case Nil
  show ?case by simp
next
  case (Cons href hrefs)
  show ?case
    using Cons.IH [of "configure (VocabularyEntriesRequest (issuedIds rs) href)
        (rs\<lparr>issuedIds := Suc (issuedIds rs)\<rparr>)"]
    by (auto simp add: generateRequestId_def configure_def split: prod.splits)
qed

lemma getVocabularyEntriesFor_log:
  "\<exists>requests. configured (snd (getVocabularyEntriesFor gatewayEntries hrefs rs)) =
        configured rs @ requests
     \<and> map requestHref requests = emitted hrefs @ emitted hrefs"
proof -
  obtain reqs1 rs1 where run1: "requestsFor (emitted hrefs) rs = (reqs1, rs1)"
    by (cases "requestsFor (emitted hrefs) rs")
  obtain reqs2 rs2 where run2: "requestsFor (emitted hrefs) rs1 = (reqs2, rs2)"
    by (cases "requestsFor (emitted hrefs) rs1")
  have log1: "configured rs1 = configured rs @ reqs1 \<and> map requestHref reqs1 = emitted hrefs"
    using requestsFor_log [of "emitted hrefs" rs] run1 by simp
  have log2: "configured rs2 = configured rs1 @ reqs2 \<and> map requestHref reqs2 = emitted hrefs"
    using requestsFor_log [of "emitted hrefs" rs1] run2 by simp
  have "snd (getVocabularyEntriesFor gatewayEntries hrefs rs) = rs2"
    by (simp add: getVocabularyEntriesFor_def toRDPaginatedVocabularyEntries_def
        configuredRequests_def run1 run2)
  then have "configured (snd (getVocabularyEntriesFor gatewayEntries hrefs rs)) =
        configured rs @ (reqs1 @ reqs2)
      \<and> map requestHref (reqs1 @ reqs2) = emitted hrefs @ emitted hrefs"
    using log1 log2 by simp
  then show ?thesis by blast
qed

lemma getVocabularyEntriesFor_single:
  "fst (getVocabularyEntriesFor gatewayEntries (Observable [href] e) rs) =
     Observable (emitted (gatewayEntries href)) (merge_ending (ending (gatewayEntries href)) e)"
  by (simp add: getVocabularyEntriesFor_def toRDPaginatedVocabularyEntries_def
      configuredRequests_def generateRequestId_def flatMap_def tapFlatMap_single
      split: prod.splits del: tapFlatMap.simps)


lemma mapThrowing_length: "length (emitted (mapThrowing f xs e)) \<le> length xs"
  by (induction xs) (simp_all split: sum.splits)

lemma take1_length: "length (emitted (take1 src)) \<le> 1"
  by (simp add: take1_def split: list.splits)

lemma remdups_adj_filter_length: "length (remdups_adj (filter p xs)) \<le> length xs"
  by (rule order_trans [OF remdups_adj_length length_filter_le])

lemma resolved_href:
  assumes "findVocabularyById vname = Observable (pending @ rd # later) e"
    and "list_all (\<lambda>r. \<not> rdHasSucceeded r) pending" and "rdHasSucceeded rd"
    and "payload rd = Some vocabulary"
    and "buildHrefFromFindOptions (entriesHref vocabulary) options \<noteq> []"
  shows "distinctUntilChanged (filter_obs (\<lambda>href. isNotEmpty (Some href))
           (mapThrowing (entriesHrefFor buildHrefFromFindOptions options)
              (emitted (getFirstSucceededRemoteDataPayload (findVocabularyById vname)))
              (ending (getFirstSucceededRemoteDataPayload (findVocabularyById vname))))) =
         Observable [buildHrefFromFindOptions (entriesHref vocabulary) options] Completes"
  using getFirstSucceededRemoteDataPayload_first [OF assms(2,3), of later e] assms(1,4,5)
  by (simp add: entriesHrefFor_def filter_obs_def distinctUntilChanged_def isNotEmpty_def)

lemma getVocabularyEntriesByValue_resolved:
  assumes "findVocabularyById (name vocabularyOptions) = Observable (pending @ rd # later) e"
    and "list_all (\<lambda>r. \<not> rdHasSucceeded r) pending" and "rdHasSucceeded rd"
    and "payload rd = Some vocabulary"
    and "buildHrefFromFindOptions (entriesHref vocabulary)
           (VocabularyFindOptions None (Some val) (Some exact) None
              (elementsPerPage pageInfo) (currentPage pageInfo)) = href"
    and "href \<noteq> []"
  shows "fst (getVocabularyEntriesByValue findVocabularyById buildHrefFromFindOptions gatewayEntries
            val exact vocabularyOptions pageInfo rs) =
         Observable (emitted (gatewayEntries href))
           (merge_ending (ending (gatewayEntries href)) Completes)"
proof -
  have "distinctUntilChanged (filter_obs (\<lambda>href. isNotEmpty (Some href))
           (mapThrowing (entriesHrefFor buildHrefFromFindOptions
                (VocabularyFindOptions None (Some val) (Some exact) None
                   (elementsPerPage pageInfo) (currentPage pageInfo)))
              (emitted (getFirstSucceededRemoteDataPayload (findVocabularyById (name vocabularyOptions))))
              (ending (getFirstSucceededRemoteDataPayload (findVocabularyById (name vocabularyOptions)))))) =
         Observable [buildHrefFromFindOptions (entriesHref vocabulary)
            (VocabularyFindOptions None (Some val) (Some exact) None
               (elementsPerPage pageInfo) (currentPage pageInfo))] Completes"
    using assms(1-4) assms(6) [folded assms(5)] by (rule resolved_href)
  then show ?thesis
    by (simp add: getVocabularyEntriesByValue_def Let_def assms(5) getVocabularyEntriesFor_single)
qed

lemma getVocabularyEntryByID_resolved:
  assumes "findVocabularyById (name vocabularyOptions) = Observable (pending @ rd # later) e"
    and "list_all (\<lambda>r. \<not> rdHasSucceeded r) pending" and "rdHasSucceeded rd"
    and "payload rd = Some vocabulary"
    and "buildHrefFromFindOptions (entriesHref vocabulary)
           (VocabularyFindOptions None None None (Some ID) None None) = href"
    and "href \<noteq> []"
  shows "fst (getVocabularyEntryByID findVocabularyById buildHrefFromFindOptions gatewayEntries
            ID vocabularyOptions rs) =
         map_obs firstOrNull (getFirstSucceededRemoteListPayload
           (Observable (emitted (gatewayEntries href))
              (merge_ending (ending (gatewayEntries href)) Completes)))"
proof -
  have "distinctUntilChanged (filter_obs (\<lambda>href. isNotEmpty (Some href))
           (mapThrowing (entriesHrefFor buildHrefFromFindOptions
                (VocabularyFindOptions None None None (Some ID) None None))
              (emitted (getFirstSucceededRemoteDataPayload (findVocabularyById (name vocabularyOptions))))
              (ending (getFirstSucceededRemoteDataPayload (findVocabularyById (name vocabularyOptions)))))) =
         Observable [buildHrefFromFindOptions (entriesHref vocabulary)
            (VocabularyFindOptions None None None (Some ID) None None)] Completes"
    using assms(1-4) assms(6) [folded assms(5)] by (rule resolved_href)
  then show ?thesis
    by (simp add: getVocabularyEntryByID_def Let_def newPageInfo_def assms(5)
        getVocabularyEntriesFor_single case_prod_beta)
qed

lemma getVocabularyEntryByValue_resolved:
  assumes "findVocabularyById (name vocabularyOptions) = Observable (pending @ rd # later) e"
    and "list_all (\<lambda>r. \<not> rdHasSucceeded r) pending" and "rdHasSucceeded rd"
    and "payload rd = Some vocabulary"
    and "buildHrefFromFindOptions (entriesHref vocabulary)
           (VocabularyFindOptions None (Some val) (Some True) None None None) = href"
    and "href \<noteq> []"
  shows "fst (getVocabularyEntryByValue findVocabularyById buildHrefFromFindOptions gatewayEntries
            val vocabularyOptions rs) =
         map_obs firstOrNull (getFirstSucceededRemoteListPayload
           (Observable (emitted (gatewayEntries href))
              (merge_ending (ending (gatewayEntries href)) Completes)))"
proof -
  have "fst (getVocabularyEntriesByValue findVocabularyById buildHrefFromFindOptions gatewayEntries
            val True vocabularyOptions newPageInfo rs) =
         Observable (emitted (gatewayEntries href))
           (merge_ending (ending (gatewayEntries href)) Completes)"
    using assms(1-4) _ assms(6)
    by (rule getVocabularyEntriesByValue_resolved) (simp add: newPageInfo_def assms(5))
  then show ?thesis
    by (simp add: getVocabularyEntryByValue_def case_prod_beta)
qed

lemma getVocabularyEntriesByValue_log:
  "\<exists>hrefs requests. length hrefs \<le> 1
     \<and> configured (snd (getVocabularyEntriesByValue findVocabularyById buildHrefFromFindOptions
            gatewayEntries val exact vocabularyOptions pageInfo rs)) = configured rs @ requests
     \<and> map requestHref requests = hrefs @ hrefs
     \<and> hrefs = emitted (distinctUntilChanged (filter_obs (\<lambda>href. isNotEmpty (Some href))
           (mapThrowing (entriesHrefFor buildHrefFromFindOptions
                (VocabularyFindOptions None (Some val) (Some exact) None
                   (elementsPerPage pageInfo) (currentPage pageInfo)))
              (emitted (getFirstSucceededRemoteDataPayload (findVocabularyById (name vocabularyOptions))))
              (ending (getFirstSucceededRemoteDataPayload (findVocabularyById (name vocabularyOptions)))))))"
proof -
  let ?vocabularies = "getFirstSucceededRemoteDataPayload (findVocabularyById (name vocabularyOptions))"
  let ?mapped = "mapThrowing (entriesHrefFor buildHrefFromFindOptions
                (VocabularyFindOptions None (Some val) (Some exact) None
                   (elementsPerPage pageInfo) (currentPage pageInfo)))
              (emitted ?vocabularies) (ending ?vocabularies)"
  let ?hrefs = "distinctUntilChanged (filter_obs (\<lambda>href. isNotEmpty (Some href)) ?mapped)"
  have "length (emitted ?vocabularies) \<le> 1"
    using take1_length [of "filter_obs rdHasSucceeded (findVocabularyById (name vocabularyOptions))"]
    by (simp add: getFirstSucceededRemoteDataPayload_def map_obs_def)
  then have "length (emitted ?mapped) \<le> 1"
    using mapThrowing_length [of "entriesHrefFor buildHrefFromFindOptions
                (VocabularyFindOptions None (Some val) (Some exact) None
                   (elementsPerPage pageInfo) (currentPage pageInfo))"
        "emitted ?vocabularies" "ending ?vocabularies"]
    by simp
  then have short: "length (emitted ?hrefs) \<le> 1"
    using remdups_adj_filter_length [of "\<lambda>href. isNotEmpty (Some href)" "emitted ?mapped"]
    by (simp add: distinctUntilChanged_def filter_obs_def)
  obtain requests where
    "configured (snd (getVocabularyEntriesFor gatewayEntries ?hrefs rs)) = configured rs @ requests"
    and "map requestHref requests = emitted ?hrefs @ emitted ?hrefs"
    using getVocabularyEntriesFor_log [of gatewayEntries ?hrefs rs] by blast
  then show ?thesis
    using short by (simp add: getVocabularyEntriesByValue_def Let_def)
qed

text \<open>
  Whatever the collaborators answer, the request descriptors that two calls of
  \<open>getVocabularyEntriesByValue\<close> with the same arguments hand to the request service carry
  at most one distinct href.
\<close>

lemma two_calls_one_href:
  "card (requestHref ` set (drop (length (configured rs))
      (configured (snd (getVocabularyEntriesByValue findVocabularyById buildHrefFromFindOptions
          gatewayEntries val exact vocabularyOptions pageInfo
          (snd (getVocabularyEntriesByValue findVocabularyById buildHrefFromFindOptions
              gatewayEntries val exact vocabularyOptions pageInfo rs))))))) \<le> 1"
proof -
  let ?rs1 = "snd (getVocabularyEntriesByValue findVocabularyById buildHrefFromFindOptions
              gatewayEntries val exact vocabularyOptions pageInfo rs)"
  let ?rs2 = "snd (getVocabularyEntriesByValue findVocabularyById buildHrefFromFindOptions
              gatewayEntries val exact vocabularyOptions pageInfo ?rs1)"
  obtain hrefs requests1 where first: "length hrefs \<le> 1"
      "configured ?rs1 = configured rs @ requests1" "map requestHref requests1 = hrefs @ hrefs"
      "hrefs = emitted (distinctUntilChanged (filter_obs (\<lambda>href. isNotEmpty (Some href))
           (mapThrowing (entriesHrefFor buildHrefFromFindOptions
                (VocabularyFindOptions None (Some val) (Some exact) None
                   (elementsPerPage pageInfo) (currentPage pageInfo)))
              (emitted (getFirstSucceededRemoteDataPayload (findVocabularyById (name vocabularyOptions))))
              (ending (getFirstSucceededRemoteDataPayload (findVocabularyById (name vocabularyOptions)))))))"
    using getVocabularyEntriesByValue_log [of findVocabularyById buildHrefFromFindOptions
        gatewayEntries val exact vocabularyOptions pageInfo rs] by blast
  obtain requests2 where second:
      "configured ?rs2 = configured ?rs1 @ requests2" "map requestHref requests2 = hrefs @ hrefs"
    using getVocabularyEntriesByValue_log [of findVocabularyById buildHrefFromFindOptions
        gatewayEntries val exact vocabularyOptions pageInfo ?rs1] first(4) by blast
  have "drop (length (configured rs)) (configured ?rs2) = requests1 @ requests2"
    by (simp add: second(1) first(2))
  then have "requestHref ` set (drop (length (configured rs)) (configured ?rs2)) =
      set (map requestHref requests1) \<union> set (map requestHref requests2)"
    by (simp add: image_Un)
  also have "\<dots> = set hrefs"
    by (simp add: first(3) second(2))
  finally have "card (requestHref ` set (drop (length (configured rs)) (configured ?rs2))) =
      card (set hrefs)"
    by simp
  also have "\<dots> \<le> length hrefs"
    by (rule card_length)
  finally show ?thesis
    using first(1) by simp
qed

lemma getVocabularyEntriesByValue_requests:
  assumes "findVocabularyById (name vocabularyOptions) = Observable (pending @ rd # later) e"
    and "list_all (\<lambda>r. \<not> rdHasSucceeded r) pending" and "rdHasSucceeded rd"
    and "payload rd = Some vocabulary"
    and "buildHrefFromFindOptions (entriesHref vocabulary)
           (VocabularyFindOptions None (Some val) (Some exact) None
              (elementsPerPage pageInfo) (currentPage pageInfo)) = href"
    and "href \<noteq> []"
  shows "snd (getVocabularyEntriesByValue findVocabularyById buildHrefFromFindOptions gatewayEntries
            val exact vocabularyOptions pageInfo rs) =
         rs\<lparr>issuedIds := Suc (Suc (issuedIds rs)),
            configured := configured rs @
              [VocabularyEntriesRequest (issuedIds rs) href,
               VocabularyEntriesRequest (Suc (issuedIds rs)) href]\<rparr>"
proof -
  have "distinctUntilChanged (filter_obs (\<lambda>href. isNotEmpty (Some href))
           (mapThrowing (entriesHrefFor buildHrefFromFindOptions
                (VocabularyFindOptions None (Some val) (Some exact) None
                   (elementsPerPage pageInfo) (currentPage pageInfo)))
              (emitted (getFirstSucceededRemoteDataPayload (findVocabularyById (name vocabularyOptions))))
              (ending (getFirstSucceededRemoteDataPayload (findVocabularyById (name vocabularyOptions)))))) =
         Observable [buildHrefFromFindOptions (entriesHref vocabulary)
            (VocabularyFindOptions None (Some val) (Some exact) None
               (elementsPerPage pageInfo) (currentPage pageInfo))] Completes"
    using assms(1-4) assms(6) [folded assms(5)] by (rule resolved_href)
  then show ?thesis
    by (simp add: getVocabularyEntriesByValue_def Let_def assms(5) getVocabularyEntriesFor_def
        toRDPaginatedVocabularyEntries_def configuredRequests_def generateRequestId_def
        configure_def)
qed

text \<open>
  C5 as amended. Two calls of \<open>getVocabularyEntriesByValue\<close> with the same arguments, one
  after the other, with the vocabulary resolved and a non-empty entries href \<open>h\<close>: nothing
  is dropped between the calls. Each call hands the request service two request
  descriptors (one for each of the two subscriptions of \<open>toRDPaginatedVocabularyEntries\<close>),
  every one under a fresh request identifier, and all four on the same href \<open>h\<close>.
\<close>

theorem two_calls_four_requests:
  assumes "findVocabularyById (name vocabularyOptions) = Observable (pending @ rd # later) e"
    and "list_all (\<lambda>r. \<not> rdHasSucceeded r) pending"
    and "state rd = Success" and "payload rd = Some vocabulary"
    and "buildHrefFromFindOptions (entriesHref vocabulary)
           (VocabularyFindOptions None (Some val) (Some exact) None
              (elementsPerPage pageInfo) (currentPage pageInfo)) = h"
    and "h \<noteq> []"
  shows "configured (snd (getVocabularyEntriesByValue findVocabularyById buildHrefFromFindOptions
            gatewayEntries val exact vocabularyOptions pageInfo
            (snd (getVocabularyEntriesByValue findVocabularyById buildHrefFromFindOptions
                gatewayEntries val exact vocabularyOptions pageInfo rs)))) =
         configured rs @
           [VocabularyEntriesRequest (issuedIds rs) h,
            VocabularyEntriesRequest (issuedIds rs + 1) h,
            VocabularyEntriesRequest (issuedIds rs + 2) h,
            VocabularyEntriesRequest (issuedIds rs + 3) h]"
proof -
  have succ: "rdHasSucceeded rd"
    using assms(3) by (simp add: rdHasSucceeded_def)
  have call: "snd (getVocabularyEntriesByValue findVocabularyById buildHrefFromFindOptions
            gatewayEntries val exact vocabularyOptions pageInfo rs') =
         rs'\<lparr>issuedIds := Suc (Suc (issuedIds rs')),
            configured := configured rs' @
              [VocabularyEntriesRequest (issuedIds rs') h,
               VocabularyEntriesRequest (Suc (issuedIds rs')) h]\<rparr>" for rs'
    using assms(1,2) succ assms(4,5,6) by (rule getVocabularyEntriesByValue_requests)
  show ?thesis
    by (simp add: call)
qed

theorem two_calls_four_requests_witness:
  "configured (snd (getVocabularyEntriesByValue exampleVocabularies exampleBuildHref exampleEntries
        ''physics'' False \<lparr>name = ''srsc''\<rparr> newPageInfo
        (snd (getVocabularyEntriesByValue exampleVocabularies exampleBuildHref exampleEntries
            ''physics'' False \<lparr>name = ''srsc''\<rparr> newPageInfo
            \<lparr>issuedIds = 10, configured = ([] :: (unit, unit) RestRequest list)\<rparr>)))) =
     [VocabularyEntriesRequest 10 ''https://api/vocabularies/srsc/entries?filter=physics'',
      VocabularyEntriesRequest 11 ''https://api/vocabularies/srsc/entries?filter=physics'',
      VocabularyEntriesRequest 12 ''https://api/vocabularies/srsc/entries?filter=physics'',
      VocabularyEntriesRequest 13 ''https://api/vocabularies/srsc/entries?filter=physics'']"
proof -
  let ?vocabulary = "Vocabulary ''srsc'' ''https://api/vocabularies/srsc/entries''"
  have a1: "exampleVocabularies (name \<lparr>name = ''srsc''\<rparr>) =
      Observable ([RemoteData ResponsePending None None None]
        @ RemoteData Success (Some ?vocabulary) (Some 200) None # []) StaysOpen"
    by (simp add: exampleVocabularies_def)
  have a2: "list_all (\<lambda>r. \<not> rdHasSucceeded r)
      [RemoteData ResponsePending None None None :: Vocabulary RemoteData]"
    by (simp add: rdHasSucceeded_def)
  have a5: "exampleBuildHref (entriesHref ?vocabulary)
           (VocabularyFindOptions None (Some ''physics'') (Some False) None
              (elementsPerPage newPageInfo) (currentPage newPageInfo)) =
        ''https://api/vocabularies/srsc/entries?filter=physics''"
    by (simp add: exampleBuildHref_def)
  show ?thesis
    using two_calls_four_requests [where findVocabularyById = exampleVocabularies
        and buildHrefFromFindOptions = exampleBuildHref and gatewayEntries = exampleEntries
        and rs = "\<lparr>issuedIds = 10, configured = ([] :: (unit, unit) RestRequest list)\<rparr>",
        OF a1 a2 _ _ a5]
    by simp
qed

text \<open>
  The claim C5 as stated fails: after the spec's two calls
  \<open>getVocabularyEntriesByValue("foo", true, options, page)\<close> the request service holds four
  request descriptors that differ pairwise, not at most one. None of them was dropped as
  a repetition of its predecessor.
\<close>

theorem two_calls_not_deduplicated:
  "configured (snd (getVocabularyEntriesByValue exampleVocabularies exampleBuildHref exampleEntries
        ''foo'' True \<lparr>name = ''srsc''\<rparr> newPageInfo
        (snd (getVocabularyEntriesByValue exampleVocabularies exampleBuildHref exampleEntries
            ''foo'' True \<lparr>name = ''srsc''\<rparr> newPageInfo noRequests)))) =
     [VocabularyEntriesRequest 0 ''https://api/vocabularies/srsc/entries?filter=foo'',
      VocabularyEntriesRequest 1 ''https://api/vocabularies/srsc/entries?filter=foo'',
      VocabularyEntriesRequest 2 ''https://api/vocabularies/srsc/entries?filter=foo'',
      VocabularyEntriesRequest 3 ''https://api/vocabularies/srsc/entries?filter=foo'']
   \<and> distinct (configured (snd (getVocabularyEntriesByValue exampleVocabularies exampleBuildHref
        exampleEntries ''foo'' True \<lparr>name = ''srsc''\<rparr> newPageInfo
        (snd (getVocabularyEntriesByValue exampleVocabularies exampleBuildHref exampleEntries
            ''foo'' True \<lparr>name = ''srsc''\<rparr> newPageInfo noRequests)))))"
  by (simp add: getVocabularyEntriesByValue_def getVocabularyEntriesFor_def
      toRDPaginatedVocabularyEntries_def configuredRequests_def generateRequestId_def
      configure_def getFirstSucceededRemoteDataPayload_def take1_def filter_obs_def map_obs_def
      rdHasSucceeded_def entriesHrefFor_def distinctUntilChanged_def isNotEmpty_def
      newPageInfo_def flatMap_def Let_def exampleVocabularies_def exampleBuildHref_def
      noRequests_def)

text \<open>
  C8. With the vocabulary resolved and a non-empty entries href, the single-entry lookups
  answer from the first list the gateway fetched successfully: its first element when the
  list is non-empty, \<open>null\<close> when it is empty. \<open>getVocabularyEntryByValue\<close> asks with the
  value, \<open>exact = true\<close> and the page fields of a default \<open>PageInfo\<close>;
  \<open>getVocabularyEntryByID\<close> asks with the ID and the same page fields.
\<close>

theorem single_entry_lookups:
  assumes "findVocabularyById (name vocabularyOptions) = Observable (pendingV @ rdV # laterV) eV"
    and "list_all (\<lambda>r. \<not> rdHasSucceeded r) pendingV"
    and "state rdV = Success" and "payload rdV = Some vocabulary"
    and "buildHrefFromFindOptions (entriesHref vocabulary)
           (VocabularyFindOptions None (Some val) (Some True) None
              (elementsPerPage newPageInfo) (currentPage newPageInfo)) = hrefByValue"
    and "hrefByValue \<noteq> []"
    and "buildHrefFromFindOptions (entriesHref vocabulary)
           (VocabularyFindOptions None None None (Some ID)
              (elementsPerPage newPageInfo) (currentPage newPageInfo)) = hrefByID"
    and "hrefByID \<noteq> []"
    and "gatewayEntries hrefByValue = Observable (pendingE @ rdE # laterE) eE"
    and "list_all (\<lambda>r. \<not> rdHasSucceeded r) pendingE"
    and "state rdE = Success" and "payload rdE = Some (PaginatedList info entries)"
    and "gatewayEntries hrefByID = Observable (pendingE' @ rdE' # laterE') eE'"
    and "list_all (\<lambda>r. \<not> rdHasSucceeded r) pendingE'"
    and "state rdE' = Success" and "payload rdE' = Some (PaginatedList info' entries')"
  shows "emitted (fst (getVocabularyEntryByValue findVocabularyById buildHrefFromFindOptions
            gatewayEntries val vocabularyOptions rs)) =
          [case entries of [] \<Rightarrow> None | entry # _ \<Rightarrow> Some entry]
    \<and> emitted (fst (getVocabularyEntryByID findVocabularyById buildHrefFromFindOptions
            gatewayEntries ID vocabularyOptions rs')) =
          [case entries' of [] \<Rightarrow> None | entry # _ \<Rightarrow> Some entry]"
proof -
  have succV: "rdHasSucceeded rdV" and succE: "rdHasSucceeded rdE" and succE': "rdHasSucceeded rdE'"
    using assms(3,11,15) by (simp_all add: rdHasSucceeded_def)
  have hrefV: "buildHrefFromFindOptions (entriesHref vocabulary)
           (VocabularyFindOptions None (Some val) (Some True) None None None) = hrefByValue"
    using assms(5) by (simp add: newPageInfo_def)
  have hrefI: "buildHrefFromFindOptions (entriesHref vocabulary)
           (VocabularyFindOptions None None None (Some ID) None None) = hrefByID"
    using assms(7) by (simp add: newPageInfo_def)
  have byValue: "fst (getVocabularyEntryByValue findVocabularyById buildHrefFromFindOptions
            gatewayEntries val vocabularyOptions rs) =
         map_obs firstOrNull (getFirstSucceededRemoteListPayload
           (Observable (emitted (gatewayEntries hrefByValue))
              (merge_ending (ending (gatewayEntries hrefByValue)) Completes)))"
    using assms(1,2) succV assms(4) hrefV assms(6) by (rule getVocabularyEntryByValue_resolved)
  have byID: "fst (getVocabularyEntryByID findVocabularyById buildHrefFromFindOptions
            gatewayEntries ID vocabularyOptions rs') =
         map_obs firstOrNull (getFirstSucceededRemoteListPayload
           (Observable (emitted (gatewayEntries hrefByID))
              (merge_ending (ending (gatewayEntries hrefByID)) Completes)))"
    using assms(1,2) succV assms(4) hrefI assms(8) by (rule getVocabularyEntryByID_resolved)
  have first: "firstOrNull entries = (case entries of [] \<Rightarrow> None | entry # _ \<Rightarrow> Some entry)"
    "firstOrNull entries' = (case entries' of [] \<Rightarrow> None | entry # _ \<Rightarrow> Some entry)"
    by (simp_all add: firstOrNull_def isNotEmpty_def split: list.splits)
  show ?thesis
    using getFirstSucceededRemoteListPayload_first [OF assms(10) succE assms(12), of laterE]
      getFirstSucceededRemoteListPayload_first [OF assms(14) succE' assms(16), of laterE']
    by (simp add: byValue byID assms(9,13) map_obs_def first)
qed

theorem single_entry_lookups_witness:
  "emitted (fst (getVocabularyEntryByValue exampleVocabularies exampleBuildHref exampleEntries
        ''physics'' \<lparr>name = ''srsc''\<rparr> noRequests)) = [None]
   \<and> emitted (fst (getVocabularyEntryByID exampleVocabularies exampleBuildHref exampleEntries
        ''42'' \<lparr>name = ''srsc''\<rparr> noRequests)) =
       [Some (VocabularyEntry ''Forty-two'' ''42'' (Some ''srsc:42''))]"
proof -
  let ?vocabulary = "Vocabulary ''srsc'' ''https://api/vocabularies/srsc/entries''"
  let ?pending = "RemoteData ResponsePending None None None"
  have a1: "exampleVocabularies (name \<lparr>name = ''srsc''\<rparr>) =
      Observable ([?pending] @ RemoteData Success (Some ?vocabulary) (Some 200) None # []) StaysOpen"
    by (simp add: exampleVocabularies_def)
  have a2: "list_all (\<lambda>r. \<not> rdHasSucceeded r) [?pending :: Vocabulary RemoteData]"
    by (simp add: rdHasSucceeded_def)
  have a5: "exampleBuildHref (entriesHref ?vocabulary)
           (VocabularyFindOptions None (Some ''physics'') (Some True) None
              (elementsPerPage newPageInfo) (currentPage newPageInfo)) =
        ''https://api/vocabularies/srsc/entries?filter=physics''"
    by (simp add: exampleBuildHref_def)
  have a7: "exampleBuildHref (entriesHref ?vocabulary)
           (VocabularyFindOptions None None None (Some ''42'')
              (elementsPerPage newPageInfo) (currentPage newPageInfo)) =
        ''https://api/vocabularies/srsc/entries?entryID=42''"
    by (simp add: exampleBuildHref_def)
  have a9: "exampleEntries ''https://api/vocabularies/srsc/entries?filter=physics'' =
      Observable ([?pending] @ RemoteData Success (Some (PaginatedList newPageInfo [])) (Some 200) None # [])
        StaysOpen"
    by (simp add: exampleEntries_def)
  have a10: "list_all (\<lambda>r. \<not> rdHasSucceeded r) [?pending :: VocabularyEntry PaginatedList RemoteData]"
    by (simp add: rdHasSucceeded_def)
  have a13: "exampleEntries ''https://api/vocabularies/srsc/entries?entryID=42'' =
      Observable ([?pending] @ RemoteData Success
          (Some (PaginatedList newPageInfo [VocabularyEntry ''Forty-two'' ''42'' (Some ''srsc:42'')]))
          (Some 200) None # []) StaysOpen"
    by (simp add: exampleEntries_def)
  show ?thesis
    using single_entry_lookups [where findVocabularyById = exampleVocabularies
        and buildHrefFromFindOptions = exampleBuildHref and gatewayEntries = exampleEntries
        and rs = noRequests and rs' = noRequests, OF a1 a2 _ _ a5 _ a7 _ a9 a10 _ _ a13 a10]
    by simp
qed











section \<open>Properties of the task search\<close>



section \<open>Properties of the reloadable action\<close>

lemma switchMapSt_single:
  "switchMapSt f [x] e s =
     (Observable (emitted (fst (f x s))) (merge_ending (ending (fst (f x s))) e), snd (f x s))"
  by (cases "f x s"; cases "ending (fst (f x s))"; cases e) simp_all

lemma handleReloadableActionResponse_success:
  "handleReloadableActionResponse True None c =
     c\<lparr>reloads := Suc (reloads c),
       notifications := notifications c @
         [Notification SuccessType ''submission.workflow.tasks.generic.success'' 5000 False]\<rparr>
   \<and> handleReloadableActionResponse True (Some obj) c =
     c\<lparr>processCompleted := processCompleted c @ [(True, obj)],
       notifications := notifications c @
         [Notification SuccessType ''submission.workflow.tasks.generic.success'' 5000 False]\<rparr>"
  by (simp add: handleReloadableActionResponse_def)

lemma tap_reloaded:
  "tap (\<lambda>reloadedObject c'.
          handleReloadableActionResponse True (Some reloadedObject) (c'\<lparr>processing := False\<rparr>))
       (Observable objs e) c =
     (if objs = [] then c
      else c\<lparr>processing := False,
             processCompleted := processCompleted c @ map (\<lambda>obj. (True, obj)) objs,
             notifications := notifications c @
               replicate (length objs)
                 (Notification SuccessType ''submission.workflow.tasks.generic.success'' 5000 False)\<rparr>)"
proof (induction objs arbitrary: c)
  case Nil
  show ?case by (simp add: tap_def)
next
  case (Cons obj objs)
  have step: "tap (\<lambda>reloadedObject c'.
          handleReloadableActionResponse True (Some reloadedObject) (c'\<lparr>processing := False\<rparr>))
       (Observable (obj # objs) e) c =
     tap (\<lambda>reloadedObject c'.
          handleReloadableActionResponse True (Some reloadedObject) (c'\<lparr>processing := False\<rparr>))
       (Observable objs e)
       (handleReloadableActionResponse True (Some obj) (c\<lparr>processing := False\<rparr>))"
    by (simp add: tap_def)
  show ?case
    unfolding step Cons.IH
    by (simp add: handleReloadableActionResponse_def replicate_append_same [symmetric]
        del: replicate.simps replicate_Suc)
       (simp add: replicate_app_Cons_same)
qed

lemma startActionExecution_single:
  assumes "emitted actionExecution = [res]"
  shows "snd (startActionExecution actionExecution reloadObjectExecution c) =
     (if hasSucceeded res then
        (if emitted (reloadObject reloadObjectExecution) = [] then c\<lparr>processing := True\<rparr>
         else c\<lparr>processing := False,
                processCompleted := processCompleted c @
                  map (\<lambda>obj. (True, obj)) (emitted (reloadObject reloadObjectExecution)),
                notifications := notifications c @
                  replicate (length (emitted (reloadObject reloadObjectExecution)))
                    (Notification SuccessType ''submission.workflow.tasks.generic.success'' 5000 False)\<rparr>)
      else c\<lparr>processing := False,
             notifications := notifications c @
               [Notification ErrorType ''submission.workflow.tasks.generic.error'' 20000 True]\<rparr>)"
proof (cases "hasSucceeded res")
  case True
  obtain objs e where reloaded: "reloadObject reloadObjectExecution = Observable objs e"
    by (cases "reloadObject reloadObjectExecution")
  show ?thesis
    using True assms
    by (simp add: startActionExecution_def switchMapSt_single onActionResponse_def Let_def
        reloaded tap_reloaded del: switchMapSt.simps)
next
  case False
  then show ?thesis
    using assms
    by (simp add: startActionExecution_def switchMapSt_single onActionResponse_def
        handleReloadableActionResponse_def del: switchMapSt.simps)
qed

text \<open>
  C1 as amended. When the action emits exactly one outcome: a failed outcome gives exactly
  one failure-typed notification and no success-typed one; a succeeded outcome gives no
  failure-typed notification and one success-typed notification for each object the reload
  delivers, so exactly one when the reload delivers exactly one object. The two types never
  occur together.
\<close>

theorem notifications_of_single_outcome:
  assumes "emitted actionExecution = [res]"
  shows "notifications (snd (startActionExecution actionExecution reloadObjectExecution c)) =
     notifications c @
       (if hasSucceeded res
        then replicate (length (emitted (reloadObject reloadObjectExecution)))
               (Notification SuccessType ''submission.workflow.tasks.generic.success'' 5000 False)
        else [Notification ErrorType ''submission.workflow.tasks.generic.error'' 20000 True])"
  using startActionExecution_single [OF assms, of reloadObjectExecution c]
  by simp

theorem notifications_of_single_outcome_witness:
  "notifications (snd (startActionExecution
       (Observable [ProcessTaskResponse True (Some 200) None] Completes)
       (Observable [Envelope (RemoteData ResponsePending None None None),
                    Envelope (RemoteData Success (Some 5) (Some 200) None)] StaysOpen) idle)) =
     [Notification SuccessType ''submission.workflow.tasks.generic.success'' 5000 False]
   \<and> notifications (snd (startActionExecution
       (Observable [ProcessTaskResponse False (Some 500) (Some ''Internal Server Error'')] Completes)
       (Observable [Plain (Some 5)] Completes) idle)) =
     [Notification ErrorType ''submission.workflow.tasks.generic.error'' 20000 True]"
proof -
  have reloaded: "emitted (reloadObject
       (Observable [Envelope (RemoteData ResponsePending None None None),
                    Envelope (RemoteData Success (Some (5 :: nat)) (Some 200) None)] StaysOpen)) =
     [SearchResult 5]"
    by (simp add: reloadObject_def getFirstSucceededRemoteDataPayload_def take1_def
        filter_obs_def map_obs_def of_obs_def rdHasSucceeded_def convertReloadedObject_def)
  show ?thesis
    using notifications_of_single_outcome [of
        "Observable [ProcessTaskResponse True (Some 200) None] Completes"
        "ProcessTaskResponse True (Some 200) None"
        "Observable [Envelope (RemoteData ResponsePending None None None),
                    Envelope (RemoteData Success (Some (5 :: nat)) (Some 200) None)] StaysOpen" idle]
      notifications_of_single_outcome [of
        "Observable [ProcessTaskResponse False (Some 500) (Some ''Internal Server Error'')] Completes"
        "ProcessTaskResponse False (Some 500) (Some ''Internal Server Error'')"
        "Observable [Plain (Some (5 :: nat))] Completes" idle]
    by (simp add: reloaded idle_def)
qed

text \<open>
  The claim C1 as stated fails: an action that has not delivered an outcome (the task
  pipeline waiting for its endpoint) gives no notification at all, and a reload that
  delivers the object twice gives two success-typed notifications for one outcome.
\<close>

theorem not_exactly_one_notification:
  "notifications (snd (startActionExecution (Observable [] StaysOpen)
       (Observable [Plain (Some 5)] Completes) idle)) = []
   \<and> notifications (snd (startActionExecution
       (Observable [ProcessTaskResponse True (Some 200) None] Completes)
       (Observable [Envelope (RemoteData Success (Some 5) (Some 200) None),
                    Envelope (RemoteData Success (Some 5) (Some 200) None)] StaysOpen) idle)) =
     [Notification SuccessType ''submission.workflow.tasks.generic.success'' 5000 False,
      Notification SuccessType ''submission.workflow.tasks.generic.success'' 5000 False]"
  by (simp add: startActionExecution_def onActionResponse_def reloadObject_def tap_def
      handleReloadableActionResponse_def getFirstSucceededRemoteDataPayload_def take1_def
      filter_obs_def map_obs_def of_obs_def rdHasSucceeded_def convertReloadedObject_def
      idle_def Let_def)

text \<open>
  C6 on the code. The action has succeeded and the reload produces no object: a plain
  \<open>null\<close>, a successful envelope without payload, or an envelope that failed. In the first
  two cases \<open>convertReloadedObject\<close> throws and the stream ends with the TypeError; in the
  third the reload completes empty. In none of them is \<open>handleReloadableActionResponse\<close>
  called: the generic reload is not triggered, nothing is notified and \<open>processing$\<close> keeps
  its value true.
\<close>

theorem reload_without_object:
  "startActionExecution (Observable [ProcessTaskResponse True (Some 200) None] Completes)
       (Observable [Plain None] Completes) idle =
     (Observable [] (Throws ''TypeError''),
      \<lparr>processing = True, notifications = [], processCompleted = [], reloads = 0\<rparr>)
   \<and> startActionExecution (Observable [ProcessTaskResponse True (Some 200) None] Completes)
       (Observable [Envelope (RemoteData Success None (Some 204) None)] Completes) idle =
     (Observable [] (Throws ''TypeError''),
      \<lparr>processing = True, notifications = [], processCompleted = [], reloads = 0\<rparr>)
   \<and> startActionExecution (Observable [ProcessTaskResponse True (Some 200) None] Completes)
       (Observable [Envelope (RemoteData Failure None (Some 404) (Some ''Not Found''))] Completes) idle =
     (Observable [] Completes,
      \<lparr>processing = True, notifications = [], processCompleted = [], reloads = 0\<rparr>)"
  by (simp add: startActionExecution_def onActionResponse_def reloadObject_def tap_def
      handleReloadableActionResponse_def getFirstSucceededRemoteDataPayload_def take1_def
      filter_obs_def map_obs_def of_obs_def rdHasSucceeded_def convertReloadedObject_def
      idle_def Let_def)

end
